theory Spec2Isabelle
  imports Complex_Main
begin

section \<open>URL encoding of path segments (RESTClient::urlEncode)\<close>

text \<open>
  \<^verbatim>\<open>RESTClient::urlEncode\<close> writes into a \<^verbatim>\<open>std::ostringstream\<close> whose fill
  character is \<^verbatim>\<open>'0'\<close> and whose integer base is \<^verbatim>\<open>std::hex\<close> (lower case, since
  \<^verbatim>\<open>std::uppercase\<close> is never set).  A \<^verbatim>\<open>std::string\<close> is a sequence of bytes, which
  is what \<^typ>\<open>string\<close> is here.
\<close>

text \<open>
  \<^verbatim>\<open>isalnum\<close> of \<^verbatim>\<open><cctype>\<close> in the \<^verbatim>\<open>"C"\<close> locale (the program never calls
  \<^verbatim>\<open>setlocale\<close>): the ASCII digits and letters.  The source passes a plain \<^verbatim>\<open>char\<close>;
  for a byte above 127 the argument is negative where \<^verbatim>\<open>char\<close> is signed, which the C
  standard leaves undefined; the model answers \<open>False\<close> there, as the C locale's table does.
\<close>

definition isalnum :: "char \<Rightarrow> bool" where
  "isalnum c =
     (let n = (of_char c :: nat)
      in (48 \<le> n \<and> n \<le> 57) \<or> (65 \<le> n \<and> n \<le> 90) \<or> (97 \<le> n \<and> n \<le> 122))"

text \<open>One lower-case hexadecimal digit.\<close>

definition hex_digit :: "nat \<Rightarrow> char" where
  "hex_digit d = ''0123456789abcdef'' ! (d mod 16)"

text \<open>\<^verbatim>\<open>escaped << int(...)\<close> under \<^verbatim>\<open>std::hex\<close>: the digits of a non-negative value in
  base 16, most significant first, with no leading zero.\<close>

fun hex_digits :: "nat \<Rightarrow> string" where
  "hex_digits n = (if n < 16 then [hex_digit n] else hex_digits (n div 16) @ [hex_digit (n mod 16)])"

declare hex_digits.simps [simp del]

text \<open>\<^verbatim>\<open>std::setw(w)\<close> with fill character \<open>f\<close>: the next item is padded on the left up
  to width \<open>w\<close> (never truncated).\<close>

definition setw_fill :: "nat \<Rightarrow> char \<Rightarrow> string \<Rightarrow> string" where
  "setw_fill w f s = replicate (w - length s) f @ s"

text \<open>The loop \<^verbatim>\<open>for (char c : str)\<close> appends, for each byte in order, either the byte or
  its escape to the stream; \<^verbatim>\<open>(unsigned char)c\<close> is the byte's value \<open>0..255\<close>.\<close>

primrec urlEncode :: "string \<Rightarrow> string" where
  "urlEncode [] = []"
| "urlEncode (c # str) =
     (if isalnum c \<or> c = CHR ''-'' \<or> c = CHR ''_'' \<or> c = CHR ''.'' \<or> c = CHR ''~''
      then [c]
      else CHR ''%'' # setw_fill 2 (CHR ''0'') (hex_digits (of_char c)))
     @ urlEncode str"

text \<open>Two notions used to state and prove the properties of \<^const>\<open>urlEncode\<close>: the
  bytes it copies, and the value of a hexadecimal digit.\<close>

definition unreserved :: "char \<Rightarrow> bool" where
  "unreserved c =
     (isalnum c \<or> c = CHR ''-'' \<or> c = CHR ''_'' \<or> c = CHR ''.'' \<or> c = CHR ''~'')"

definition unhex :: "char \<Rightarrow> nat" where
  "unhex c = (let n = (of_char c :: nat) in if n < 58 then n - 48 else n - 87)"

section \<open>C++ values and exceptions\<close>

text \<open>
  A call of a client method either returns a value of its declared result type or leaves
  by a thrown exception.  The clients throw \<^verbatim>\<open>std::runtime_error\<close> themselves; the JSON
  library throws \<^verbatim>\<open>parse_error\<close> from \<^verbatim>\<open>json::parse\<close> and \<^verbatim>\<open>type_error\<close> (with its
  numeric id) from \<^verbatim>\<open>value()\<close>.  No method of either client contains a \<^verbatim>\<open>try\<close> block.
\<close>

datatype cpp_exception =
    RuntimeError string
  | JsonParseError
  | JsonTypeError nat

datatype 'a outcome = Returned 'a | Thrown cpp_exception

text \<open>Sequencing of two statements: the second runs only if the first did not throw.\<close>

fun and_then :: "'a outcome \<Rightarrow> ('a \<Rightarrow> 'b outcome) \<Rightarrow> 'b outcome" where
  "and_then (Returned x) f = f x"
| "and_then (Thrown ex) f = Thrown ex"

text \<open>\<^verbatim>\<open>std::to_string(int)\<close>: the decimal digits, with a minus sign for a negative value.\<close>

fun decimal :: "nat \<Rightarrow> string" where
  "decimal n = (if n < 10 then [''0123456789'' ! n] else decimal (n div 10) @ [''0123456789'' ! (n mod 10)])"

declare decimal.simps [simp del]

definition to_string :: "int \<Rightarrow> string" where
  "to_string i = (if i < 0 then CHR ''-'' # decimal (nat (- i)) else decimal (nat i))"

section \<open>JSON documents (nlohmann::json)\<close>

text \<open>
  The JSON library is a third-party header, not part of the repository.  A document is
  modelled by its value tree; an object keeps its members as an association list and is
  read with \<^const>\<open>map_of\<close>.  A C++ \<^verbatim>\<open>double\<close> is modelled by the real number it denotes
  (NaN and the infinities are not modelled).
\<close>

datatype json =
    JNull
  | JBool bool
  | JInt int
  | JFloat real
  | JString string
  | JArray "json list"
  | JObject "(string \<times> json) list"

text \<open>
  \<^verbatim>\<open>j.value(key, default)\<close>: on an object, the member converted to the type of the default
  when the key is present, the default when it is absent; on anything but an object
  \<^verbatim>\<open>type_error\<close> 306.  A member of the wrong type gives \<^verbatim>\<open>type_error\<close> 302.
\<close>

definition value_string :: "json \<Rightarrow> string \<Rightarrow> string \<Rightarrow> string outcome" where
  "value_string j key dflt =
     (case j of
        JObject members \<Rightarrow>
          (case map_of members key of
             None \<Rightarrow> Returned dflt
           | Some (JString s) \<Rightarrow> Returned s
           | Some _ \<Rightarrow> Thrown (JsonTypeError 302))
      | _ \<Rightarrow> Thrown (JsonTypeError 306))"

definition value_bool :: "json \<Rightarrow> string \<Rightarrow> bool \<Rightarrow> bool outcome" where
  "value_bool j key dflt =
     (case j of
        JObject members \<Rightarrow>
          (case map_of members key of
             None \<Rightarrow> Returned dflt
           | Some (JBool b) \<Rightarrow> Returned b
           | Some _ \<Rightarrow> Thrown (JsonTypeError 302))
      | _ \<Rightarrow> Thrown (JsonTypeError 306))"

definition value_double :: "json \<Rightarrow> string \<Rightarrow> real \<Rightarrow> real outcome" where
  "value_double j key dflt =
     (case j of
        JObject members \<Rightarrow>
          (case map_of members key of
             None \<Rightarrow> Returned dflt
           | Some (JFloat r) \<Rightarrow> Returned r
           | Some (JInt i) \<Rightarrow> Returned (of_int i)
           | Some _ \<Rightarrow> Thrown (JsonTypeError 302))
      | _ \<Rightarrow> Thrown (JsonTypeError 306))"

text \<open>
  The default \<^verbatim>\<open>0\<close> has type \<^verbatim>\<open>int\<close>, so the member is converted by
  \<^verbatim>\<open>static_cast<int>\<close>: an integer is reduced to 32 bits (two's complement), a floating
  point number is truncated towards zero (outside the range of \<^verbatim>\<open>int\<close> C++ leaves the
  conversion undefined; the model reduces it like an integer), a boolean becomes 0 or 1.
\<close>

definition to_int32 :: "int \<Rightarrow> int" where
  "to_int32 i = (i + 2147483648) mod 4294967296 - 2147483648"

definition truncate :: "real \<Rightarrow> int" where
  "truncate r = (if r < 0 then - \<lfloor>- r\<rfloor> else \<lfloor>r\<rfloor>)"

definition value_int :: "json \<Rightarrow> string \<Rightarrow> int \<Rightarrow> int outcome" where
  "value_int j key dflt =
     (case j of
        JObject members \<Rightarrow>
          (case map_of members key of
             None \<Rightarrow> Returned dflt
           | Some (JInt i) \<Rightarrow> Returned (to_int32 i)
           | Some (JFloat r) \<Rightarrow> Returned (to_int32 (truncate r))
           | Some (JBool b) \<Rightarrow> Returned (if b then 1 else 0)
           | Some _ \<Rightarrow> Thrown (JsonTypeError 302))
      | _ \<Rightarrow> Thrown (JsonTypeError 306))"

text \<open>\<^verbatim>\<open>j.contains(key)\<close>: false on anything but an object.\<close>

definition contains :: "json \<Rightarrow> string \<Rightarrow> bool" where
  "contains j key = (case j of JObject members \<Rightarrow> map_of members key \<noteq> None | _ \<Rightarrow> False)"

text \<open>\<^verbatim>\<open>j[key]\<close>, used only after \<^verbatim>\<open>j.contains(key)\<close> held.\<close>

definition subscript :: "json \<Rightarrow> string \<Rightarrow> json" where
  "subscript j key = (case j of JObject members \<Rightarrow> (case map_of members key of Some v \<Rightarrow> v | None \<Rightarrow> JNull) | _ \<Rightarrow> JNull)"

text \<open>The items a range-based \<^verbatim>\<open>for\<close> visits: the elements of an array, the member values
  of an object, nothing for \<^verbatim>\<open>null\<close>, and a scalar itself once.\<close>

definition elements :: "json \<Rightarrow> json list" where
  "elements j =
     (case j of JArray xs \<Rightarrow> xs | JObject members \<Rightarrow> map snd members | JNull \<Rightarrow> [] | _ \<Rightarrow> [j])"

text \<open>The body of such a loop, run on each item in order with \<^verbatim>\<open>push_back\<close>; the first
  exception ends the loop.\<close>

primrec read_each :: "(json \<Rightarrow> 'a outcome) \<Rightarrow> json list \<Rightarrow> 'a list outcome" where
  "read_each f [] = Returned []"
| "read_each f (x # xs) =
     and_then (f x) (\<lambda>r. and_then (read_each f xs) (\<lambda>rs. Returned (r # rs)))"

section \<open>The HTTP library and the network (httplib::Client)\<close>

text \<open>
  \<^verbatim>\<open>client->Get(endpoint, headers)\<close> and \<^verbatim>\<open>client->Delete(endpoint, headers)\<close> send no
  body; \<^verbatim>\<open>Post\<close> and \<^verbatim>\<open>Put\<close> send a body with its content type.
\<close>

datatype http_verb = Get | Post | Put | Delete

record http_request =
  verb :: http_verb
  path :: string
  headers :: "(string \<times> string) list"
  content :: "(string \<times> string) option"

text \<open>
  An \<^verbatim>\<open>httplib::Result\<close> is either empty (\<^verbatim>\<open>!result\<close>, with the code
  \<^verbatim>\<open>result.error()\<close>) or a response with its status and body.
\<close>

datatype http_result = NoResponse int | Response int string

text \<open>
  What lies outside the repository is taken as a parameter: what the network answers to
  a request (\<open>http\<close>), and the two entry points of the JSON library that turn text into
  a document and back (\<open>json_parse\<close>, where \<open>None\<close> stands for a thrown
  \<^verbatim>\<open>parse_error\<close>, and \<open>json_dump\<close>).
\<close>

record env =
  http :: "http_request \<Rightarrow> http_result"
  json_parse :: "string \<Rightarrow> json option"
  json_dump :: "json \<Rightarrow> string"

definition parse :: "env \<Rightarrow> string \<Rightarrow> json outcome" where
  "parse e text = (case json_parse e text of None \<Rightarrow> Thrown JsonParseError | Some j \<Rightarrow> Returned j)"

text \<open>
  A call is modelled by its outcome together with the requests it put on the wire, in
  order.
\<close>

type_synonym 'a call = "'a outcome \<times> http_request list"

section \<open>Result structures (RESTClient.h, repeated in GRPCClient.h)\<close>

record Account =
  name :: string
  address :: string
  keyType :: string

record ComponentRegistrationResult =
  componentId :: string
  componentIdentity :: string
  componentData :: string
  "context" :: string
  creator :: string
  lctId :: string
  status :: string
  txHash :: string

record AnonymousComponentResult =
  componentHash :: string
  manufacturerHash :: string
  categoryHash :: string
  creator :: string
  "context" :: string
  status :: string
  txHash :: string

record PairingVerificationResult =
  sourceHash :: string
  targetHash :: string
  "context" :: string
  status :: string
  txHash :: string

record PairingAuthorizationResult =
  authorizationId :: string
  sourceHash :: string
  targetHash :: string
  "context" :: string
  status :: string
  txHash :: string

record RevocationEventResult =
  revocationId :: string
  componentHash :: string
  reason :: string
  "context" :: string
  status :: string
  txHash :: string

record ComponentMetadataResult =
  componentHash :: string
  metadata :: string
  status :: string
  txHash :: string

record LCTResult =
  lctId :: string
  componentA :: string
  componentB :: string
  "context" :: string
  proxyId :: string
  status :: string
  createdAt :: int
  creator :: string
  txHash :: string
  lctKeyHalf :: string
  deviceKeyHalf :: string

record PairingInitiateResult =
  challengeId :: string
  componentA :: string
  componentB :: string
  operationalContext :: string
  proxyId :: string
  forceImmediate :: bool
  status :: string
  createdAt :: int
  creator :: string
  txHash :: string

record PairingCompleteResult =
  lctId :: string
  sessionKeys :: string
  trustSummary :: string
  txHash :: string
  splitKeyA :: string
  splitKeyB :: string

record TrustTensorResult =
  tensorId :: string
  score :: real
  status :: string
  txHash :: string

record EnergyOperationResult =
  operationId :: string
  operationType :: string
  amount :: real
  status :: string
  txHash :: string

record PairingRequestResult =
  requestId :: string
  componentA :: string
  componentB :: string
  "context" :: string
  status :: string
  createdAt :: int
  creator :: string
  txHash :: string

record QueueStatusResult =
  queueId :: string
  pendingRequests :: int
  processedRequests :: int
  status :: string
  txHash :: string

section \<open>Filling a result structure from a parsed response\<close>

text \<open>
  Every method fills its result field by field with \<^verbatim>\<open>j.value("key", default)\<close>, in the
  order of the assignments in the source.  The block for one structure is repeated
  verbatim in every method that returns it (for instance in \<^verbatim>\<open>createLCT\<close>, \<^verbatim>\<open>getLCT\<close> and
  \<^verbatim>\<open>updateLCTStatus\<close>, in both clients), and is written once here.
\<close>

definition read_Account :: "json \<Rightarrow> Account outcome" where
  "read_Account j =
     and_then (value_string j ''name'' '''') (\<lambda>name'.
     and_then (value_string j ''address'' '''') (\<lambda>address'.
     and_then (value_string j ''key_type'' '''') (\<lambda>keyType'.
       Returned \<lparr>Account.name = name', address = address', keyType = keyType'\<rparr>)))"

definition read_ComponentRegistrationResult :: "json \<Rightarrow> ComponentRegistrationResult outcome" where
  "read_ComponentRegistrationResult j =
     and_then (value_string j ''component_id'' '''') (\<lambda>componentId'.
     and_then (value_string j ''component_identity'' '''') (\<lambda>componentIdentity'.
     and_then (value_string j ''component_data'' '''') (\<lambda>componentData'.
     and_then (value_string j ''context'' '''') (\<lambda>context'.
     and_then (value_string j ''creator'' '''') (\<lambda>creator'.
     and_then (value_string j ''lct_id'' '''') (\<lambda>lctId'.
     and_then (value_string j ''status'' '''') (\<lambda>status'.
     and_then (value_string j ''tx_hash'' '''') (\<lambda>txHash'.
       Returned \<lparr>ComponentRegistrationResult.componentId = componentId',
         componentIdentity = componentIdentity', componentData = componentData',
         context = context', creator = creator', lctId = lctId', status = status',
         txHash = txHash'\<rparr>))))))))"

definition read_AnonymousComponentResult :: "json \<Rightarrow> AnonymousComponentResult outcome" where
  "read_AnonymousComponentResult j =
     and_then (value_string j ''component_hash'' '''') (\<lambda>componentHash'.
     and_then (value_string j ''manufacturer_hash'' '''') (\<lambda>manufacturerHash'.
     and_then (value_string j ''category_hash'' '''') (\<lambda>categoryHash'.
     and_then (value_string j ''creator'' '''') (\<lambda>creator'.
     and_then (value_string j ''context'' '''') (\<lambda>context'.
     and_then (value_string j ''status'' '''') (\<lambda>status'.
     and_then (value_string j ''tx_hash'' '''') (\<lambda>txHash'.
       Returned \<lparr>AnonymousComponentResult.componentHash = componentHash',
         manufacturerHash = manufacturerHash', categoryHash = categoryHash',
         creator = creator', context = context', status = status', txHash = txHash'\<rparr>)))))))"

definition read_PairingVerificationResult :: "json \<Rightarrow> PairingVerificationResult outcome" where
  "read_PairingVerificationResult j =
     and_then (value_string j ''source_hash'' '''') (\<lambda>sourceHash'.
     and_then (value_string j ''target_hash'' '''') (\<lambda>targetHash'.
     and_then (value_string j ''context'' '''') (\<lambda>context'.
     and_then (value_string j ''status'' '''') (\<lambda>status'.
     and_then (value_string j ''tx_hash'' '''') (\<lambda>txHash'.
       Returned \<lparr>PairingVerificationResult.sourceHash = sourceHash',
         targetHash = targetHash', context = context', status = status',
         txHash = txHash'\<rparr>)))))"

definition read_PairingAuthorizationResult :: "json \<Rightarrow> PairingAuthorizationResult outcome" where
  "read_PairingAuthorizationResult j =
     and_then (value_string j ''authorization_id'' '''') (\<lambda>authorizationId'.
     and_then (value_string j ''source_hash'' '''') (\<lambda>sourceHash'.
     and_then (value_string j ''target_hash'' '''') (\<lambda>targetHash'.
     and_then (value_string j ''context'' '''') (\<lambda>context'.
     and_then (value_string j ''status'' '''') (\<lambda>status'.
     and_then (value_string j ''tx_hash'' '''') (\<lambda>txHash'.
       Returned \<lparr>PairingAuthorizationResult.authorizationId = authorizationId',
         sourceHash = sourceHash', targetHash = targetHash', context = context',
         status = status', txHash = txHash'\<rparr>))))))"

definition read_RevocationEventResult :: "json \<Rightarrow> RevocationEventResult outcome" where
  "read_RevocationEventResult j =
     and_then (value_string j ''revocation_id'' '''') (\<lambda>revocationId'.
     and_then (value_string j ''component_hash'' '''') (\<lambda>componentHash'.
     and_then (value_string j ''reason'' '''') (\<lambda>reason'.
     and_then (value_string j ''context'' '''') (\<lambda>context'.
     and_then (value_string j ''status'' '''') (\<lambda>status'.
     and_then (value_string j ''tx_hash'' '''') (\<lambda>txHash'.
       Returned \<lparr>RevocationEventResult.revocationId = revocationId',
         componentHash = componentHash', reason = reason', context = context',
         status = status', txHash = txHash'\<rparr>))))))"

definition read_ComponentMetadataResult :: "json \<Rightarrow> ComponentMetadataResult outcome" where
  "read_ComponentMetadataResult j =
     and_then (value_string j ''component_hash'' '''') (\<lambda>componentHash'.
     and_then (value_string j ''metadata'' '''') (\<lambda>metadata'.
     and_then (value_string j ''status'' '''') (\<lambda>status'.
     and_then (value_string j ''tx_hash'' '''') (\<lambda>txHash'.
       Returned \<lparr>ComponentMetadataResult.componentHash = componentHash',
         metadata = metadata', status = status', txHash = txHash'\<rparr>))))"

definition read_PairingRequestResult :: "json \<Rightarrow> PairingRequestResult outcome" where
  "read_PairingRequestResult j =
     and_then (value_string j ''request_id'' '''') (\<lambda>requestId'.
     and_then (value_string j ''component_a'' '''') (\<lambda>componentA'.
     and_then (value_string j ''component_b'' '''') (\<lambda>componentB'.
     and_then (value_string j ''context'' '''') (\<lambda>context'.
     and_then (value_string j ''status'' '''') (\<lambda>status'.
     and_then (value_int j ''created_at'' 0) (\<lambda>createdAt'.
     and_then (value_string j ''creator'' '''') (\<lambda>creator'.
     and_then (value_string j ''tx_hash'' '''') (\<lambda>txHash'.
       Returned \<lparr>PairingRequestResult.requestId = requestId', componentA = componentA',
         componentB = componentB', context = context', status = status',
         createdAt = createdAt', creator = creator', txHash = txHash'\<rparr>))))))))"

definition read_QueueStatusResult :: "json \<Rightarrow> QueueStatusResult outcome" where
  "read_QueueStatusResult j =
     and_then (value_string j ''queue_id'' '''') (\<lambda>queueId'.
     and_then (value_int j ''pending_requests'' 0) (\<lambda>pendingRequests'.
     and_then (value_int j ''processed_requests'' 0) (\<lambda>processedRequests'.
     and_then (value_string j ''status'' '''') (\<lambda>status'.
     and_then (value_string j ''tx_hash'' '''') (\<lambda>txHash'.
       Returned \<lparr>QueueStatusResult.queueId = queueId',
         pendingRequests = pendingRequests', processedRequests = processedRequests',
         status = status', txHash = txHash'\<rparr>)))))"

definition read_LCTResult :: "json \<Rightarrow> LCTResult outcome" where
  "read_LCTResult j =
     and_then (value_string j ''lct_id'' '''') (\<lambda>lctId'.
     and_then (value_string j ''component_a'' '''') (\<lambda>componentA'.
     and_then (value_string j ''component_b'' '''') (\<lambda>componentB'.
     and_then (value_string j ''context'' '''') (\<lambda>context'.
     and_then (value_string j ''proxy_id'' '''') (\<lambda>proxyId'.
     and_then (value_string j ''status'' '''') (\<lambda>status'.
     and_then (value_int j ''created_at'' 0) (\<lambda>createdAt'.
     and_then (value_string j ''creator'' '''') (\<lambda>creator'.
     and_then (value_string j ''tx_hash'' '''') (\<lambda>txHash'.
     and_then (value_string j ''lct_key_half'' '''') (\<lambda>lctKeyHalf'.
     and_then (value_string j ''device_key_half'' '''') (\<lambda>deviceKeyHalf'.
       Returned \<lparr>LCTResult.lctId = lctId', componentA = componentA',
         componentB = componentB', context = context', proxyId = proxyId', status = status',
         createdAt = createdAt', creator = creator', txHash = txHash',
         lctKeyHalf = lctKeyHalf', deviceKeyHalf = deviceKeyHalf'\<rparr>)))))))))))"

definition read_PairingInitiateResult :: "json \<Rightarrow> PairingInitiateResult outcome" where
  "read_PairingInitiateResult j =
     and_then (value_string j ''challenge_id'' '''') (\<lambda>challengeId'.
     and_then (value_string j ''component_a'' '''') (\<lambda>componentA'.
     and_then (value_string j ''component_b'' '''') (\<lambda>componentB'.
     and_then (value_string j ''operational_context'' '''') (\<lambda>operationalContext'.
     and_then (value_string j ''proxy_id'' '''') (\<lambda>proxyId'.
     and_then (value_bool j ''force_immediate'' False) (\<lambda>forceImmediate'.
     and_then (value_string j ''status'' '''') (\<lambda>status'.
     and_then (value_int j ''created_at'' 0) (\<lambda>createdAt'.
     and_then (value_string j ''creator'' '''') (\<lambda>creator'.
     and_then (value_string j ''tx_hash'' '''') (\<lambda>txHash'.
       Returned \<lparr>PairingInitiateResult.challengeId = challengeId',
         componentA = componentA', componentB = componentB',
         operationalContext = operationalContext', proxyId = proxyId',
         forceImmediate = forceImmediate', status = status', createdAt = createdAt',
         creator = creator', txHash = txHash'\<rparr>))))))))))"

definition read_PairingCompleteResult :: "json \<Rightarrow> PairingCompleteResult outcome" where
  "read_PairingCompleteResult j =
     and_then (value_string j ''lct_id'' '''') (\<lambda>lctId'.
     and_then (value_string j ''session_keys'' '''') (\<lambda>sessionKeys'.
     and_then (value_string j ''trust_summary'' '''') (\<lambda>trustSummary'.
     and_then (value_string j ''tx_hash'' '''') (\<lambda>txHash'.
     and_then (value_string j ''split_key_a'' '''') (\<lambda>splitKeyA'.
     and_then (value_string j ''split_key_b'' '''') (\<lambda>splitKeyB'.
       Returned \<lparr>PairingCompleteResult.lctId = lctId', sessionKeys = sessionKeys',
         trustSummary = trustSummary', txHash = txHash', splitKeyA = splitKeyA',
         splitKeyB = splitKeyB'\<rparr>))))))"

definition read_TrustTensorResult :: "json \<Rightarrow> TrustTensorResult outcome" where
  "read_TrustTensorResult j =
     and_then (value_string j ''tensor_id'' '''') (\<lambda>tensorId'.
     and_then (value_double j ''score'' 0) (\<lambda>score'.
     and_then (value_string j ''status'' '''') (\<lambda>status'.
     and_then (value_string j ''tx_hash'' '''') (\<lambda>txHash'.
       Returned \<lparr>TrustTensorResult.tensorId = tensorId', score = score',
         status = status', txHash = txHash'\<rparr>))))"

definition read_EnergyOperationResult :: "json \<Rightarrow> EnergyOperationResult outcome" where
  "read_EnergyOperationResult j =
     and_then (value_string j ''operation_id'' '''') (\<lambda>operationId'.
     and_then (value_string j ''operation_type'' '''') (\<lambda>operationType'.
     and_then (value_double j ''amount'' 0) (\<lambda>amount'.
     and_then (value_string j ''status'' '''') (\<lambda>status'.
     and_then (value_string j ''tx_hash'' '''') (\<lambda>txHash'.
       Returned \<lparr>EnergyOperationResult.operationId = operationId',
         operationType = operationType', amount = amount', status = status',
         txHash = txHash'\<rparr>)))))"

definition read_list :: "string \<Rightarrow> (json \<Rightarrow> 'a outcome) \<Rightarrow> json \<Rightarrow> 'a list outcome" where
  "read_list key fill j =
     (if contains j key then read_each fill (elements (subscript j key)) else Returned [])"

section \<open>The request documents\<close>

text \<open>
  The local variable \<^verbatim>\<open>json request = { ... }\<close> of each method that sends a body, with
  the members in the order written.  Where both clients have the method, the two
  initialiser lists are the same and the document is written once.
\<close>

definition createAccount_request :: "string \<Rightarrow> json" where
  "createAccount_request name' =
     JObject [(''name'', JString name')]"

definition registerAnonymousComponent_request :: "string \<Rightarrow> string \<Rightarrow> string \<Rightarrow> string \<Rightarrow> string \<Rightarrow> json" where
  "registerAnonymousComponent_request creator' realComponentId' manufacturerId' componentType' context' =
     JObject [(''creator'', JString creator'),
       (''real_component_id'', JString realComponentId'),
       (''manufacturer_id'', JString manufacturerId'),
       (''component_type'', JString componentType'), (''context'', JString context')]"

definition verifyComponentPairingWithHashes_request :: "string \<Rightarrow> string \<Rightarrow> string \<Rightarrow> string \<Rightarrow> json" where
  "verifyComponentPairingWithHashes_request verifier' sourceHash' targetHash' context' =
     JObject [(''verifier'', JString verifier'), (''source_hash'', JString sourceHash'),
       (''target_hash'', JString targetHash'), (''context'', JString context')]"

definition createAnonymousPairingAuthorization_request :: "string \<Rightarrow> string \<Rightarrow> string \<Rightarrow> string \<Rightarrow> json" where
  "createAnonymousPairingAuthorization_request creator' sourceHash' targetHash' context' =
     JObject [(''creator'', JString creator'), (''source_hash'', JString sourceHash'),
       (''target_hash'', JString targetHash'), (''context'', JString context')]"

definition createAnonymousRevocationEvent_request :: "string \<Rightarrow> string \<Rightarrow> string \<Rightarrow> string \<Rightarrow> json" where
  "createAnonymousRevocationEvent_request creator' componentHash' reason' context' =
     JObject [(''creator'', JString creator'), (''component_hash'', JString componentHash'),
       (''reason'', JString reason'), (''context'', JString context')]"

definition queuePairingRequest_request :: "string \<Rightarrow> string \<Rightarrow> string \<Rightarrow> string \<Rightarrow> json" where
  "queuePairingRequest_request creator' componentA' componentB' context' =
     JObject [(''creator'', JString creator'), (''component_a'', JString componentA'),
       (''component_b'', JString componentB'), (''context'', JString context')]"

definition processOfflineQueue_request :: "string \<Rightarrow> string \<Rightarrow> string \<Rightarrow> json" where
  "processOfflineQueue_request processor' queueId' context' =
     JObject [(''processor'', JString processor'), (''queue_id'', JString queueId'),
       (''context'', JString context')]"

definition cancelRequest_request :: "string \<Rightarrow> string \<Rightarrow> string \<Rightarrow> json" where
  "cancelRequest_request creator' requestId' reason' =
     JObject [(''creator'', JString creator'), (''request_id'', JString requestId'),
       (''reason'', JString reason')]"

definition registerComponent_request :: "string \<Rightarrow> string \<Rightarrow> string \<Rightarrow> json" where
  "registerComponent_request creator' componentData' context' =
     JObject [(''creator'', JString creator'), (''component_data'', JString componentData'),
       (''context'', JString context')]"

definition verifyComponent_request :: "string \<Rightarrow> string \<Rightarrow> string \<Rightarrow> json" where
  "verifyComponent_request verifier' componentId' context' =
     JObject [(''verifier'', JString verifier'), (''component_id'', JString componentId'),
       (''context'', JString context')]"

definition createLCT_request :: "string \<Rightarrow> string \<Rightarrow> string \<Rightarrow> string \<Rightarrow> string \<Rightarrow> json" where
  "createLCT_request creator' componentA' componentB' context' proxyId' =
     JObject [(''creator'', JString creator'), (''component_a'', JString componentA'),
       (''component_b'', JString componentB'), (''context'', JString context'),
       (''proxy_id'', JString proxyId')]"

definition updateLCTStatus_request :: "string \<Rightarrow> string \<Rightarrow> string \<Rightarrow> string \<Rightarrow> json" where
  "updateLCTStatus_request creator' lctId' status' context' =
     JObject [(''creator'', JString creator'), (''lct_id'', JString lctId'),
       (''status'', JString status'), (''context'', JString context')]"

definition initiatePairing_request :: "string \<Rightarrow> string \<Rightarrow> string \<Rightarrow> string \<Rightarrow> string \<Rightarrow> bool \<Rightarrow> json" where
  "initiatePairing_request creator' componentA' componentB' operationalContext' proxyId' forceImmediate' =
     JObject [(''creator'', JString creator'), (''component_a'', JString componentA'),
       (''component_b'', JString componentB'),
       (''operational_context'', JString operationalContext'),
       (''proxy_id'', JString proxyId'), (''force_immediate'', JBool forceImmediate')]"

definition completePairing_request :: "string \<Rightarrow> string \<Rightarrow> string \<Rightarrow> string \<Rightarrow> string \<Rightarrow> json" where
  "completePairing_request creator' challengeId' componentAAuth' componentBAuth' sessionContext' =
     JObject [(''creator'', JString creator'), (''challenge_id'', JString challengeId'),
       (''component_a_auth'', JString componentAAuth'),
       (''component_b_auth'', JString componentBAuth'),
       (''session_context'', JString sessionContext')]"

definition revokePairing_request :: "string \<Rightarrow> string \<Rightarrow> string \<Rightarrow> bool \<Rightarrow> json" where
  "revokePairing_request creator' lctId' reason' notifyOffline' =
     JObject [(''creator'', JString creator'), (''lct_id'', JString lctId'),
       (''reason'', JString reason'), (''notify_offline'', JBool notifyOffline')]"

definition createTrustTensor_request :: "string \<Rightarrow> string \<Rightarrow> string \<Rightarrow> string \<Rightarrow> real \<Rightarrow> json" where
  "createTrustTensor_request creator' componentA' componentB' context' initialScore' =
     JObject [(''creator'', JString creator'), (''component_a'', JString componentA'),
       (''component_b'', JString componentB'), (''context'', JString context'),
       (''initial_score'', JFloat initialScore')]"

definition updateTrustScore_request :: "string \<Rightarrow> string \<Rightarrow> real \<Rightarrow> string \<Rightarrow> json" where
  "updateTrustScore_request creator' tensorId' score' context' =
     JObject [(''creator'', JString creator'), (''tensor_id'', JString tensorId'),
       (''score'', JFloat score'), (''context'', JString context')]"

definition createEnergyOperation_request :: "string \<Rightarrow> string \<Rightarrow> string \<Rightarrow> string \<Rightarrow> real \<Rightarrow> string \<Rightarrow> json" where
  "createEnergyOperation_request creator' componentA' componentB' operationType' amount' context' =
     JObject [(''creator'', JString creator'), (''component_a'', JString componentA'),
       (''component_b'', JString componentB'), (''operation_type'', JString operationType'),
       (''amount'', JFloat amount'), (''context'', JString context')]"

definition executeEnergyTransfer_request :: "string \<Rightarrow> string \<Rightarrow> real \<Rightarrow> string \<Rightarrow> json" where
  "executeEnergyTransfer_request creator' operationId' amount' context' =
     JObject [(''creator'', JString creator'), (''operation_id'', JString operationId'),
       (''amount'', JFloat amount'), (''context'', JString context')]"







section \<open>RESTClient\<close>

text \<open>
  \<^verbatim>\<open>RESTClient::makeRequest\<close>: one call of the HTTP client for a supported method, none
  for an unsupported one; then the two checks on its result (\<^verbatim>\<open>!result\<close>, then
  \<^verbatim>\<open>result->status != 200\<close>), written once as \<open>RESTClient_checked\<close>.  Both
  clients build the same two headers.  The second component lists the requests sent.
\<close>

definition RESTClient_checked :: "http_result \<Rightarrow> string outcome" where
  "RESTClient_checked result =
     (case result of
        NoResponse err \<Rightarrow> Thrown (RuntimeError (''HTTP request failed: '' @ to_string err))
      | Response status' body' \<Rightarrow>
          if status' \<noteq> 200
          then Thrown (RuntimeError (''HTTP error '' @ to_string status' @ '': '' @ body'))
          else Returned body')"

definition std_headers :: "(string \<times> string) list" where
  "std_headers = [(''Content-Type'', ''application/json''), (''Accept'', ''application/json'')]"

definition RESTClient_makeRequest :: "env \<Rightarrow> string \<Rightarrow> string \<Rightarrow> string \<Rightarrow> string call" where
  "RESTClient_makeRequest e method endpoint body =
     (let send = (\<lambda>request. (RESTClient_checked (http e request), [request]))
      in if method = ''GET''
         then send \<lparr>verb = Get, path = endpoint, headers = std_headers, content = None\<rparr>
         else if method = ''POST''
         then send \<lparr>verb = Post, path = endpoint, headers = std_headers,
                     content = Some (body, ''application/json'')\<rparr>
         else if method = ''PUT''
         then send \<lparr>verb = Put, path = endpoint, headers = std_headers,
                     content = Some (body, ''application/json'')\<rparr>
         else if method = ''DELETE''
         then send \<lparr>verb = Delete, path = endpoint, headers = std_headers, content = None\<rparr>
         else (Thrown (RuntimeError (''Unsupported HTTP method: '' @ method)), []))"

text \<open>
  Every method but the two status methods has the same three statements:
  \<^verbatim>\<open>makeRequest\<close>, \<^verbatim>\<open>json::parse\<close> of the text it returned, and the block that fills the
  result from the parsed document.
\<close>

definition RESTClient_exchange ::
  "env \<Rightarrow> string \<Rightarrow> string \<Rightarrow> string \<Rightarrow> (json \<Rightarrow> 'a outcome) \<Rightarrow> 'a call" where
  "RESTClient_exchange e method endpoint body fill =
     (let (response, sent) = RESTClient_makeRequest e method endpoint body
      in (and_then response (\<lambda>text. and_then (parse e text) fill), sent))"

definition RESTClient_getAccounts :: "env \<Rightarrow> (Account list) call" where
  "RESTClient_getAccounts e =
     RESTClient_exchange e ''GET'' ''/accounts'' []
       (read_list ''accounts'' read_Account)"

definition RESTClient_createAccount :: "env \<Rightarrow> string \<Rightarrow> Account call" where
  "RESTClient_createAccount e name' =
     RESTClient_exchange e ''POST'' ''/accounts'' (json_dump e (createAccount_request name'))
       read_Account"

definition RESTClient_registerComponent :: "env \<Rightarrow> string \<Rightarrow> string \<Rightarrow> string \<Rightarrow> ComponentRegistrationResult call" where
  "RESTClient_registerComponent e creator' componentData' context' =
     RESTClient_exchange e ''POST'' ''/components/register''
       (json_dump e (registerComponent_request creator' componentData' context'))
       read_ComponentRegistrationResult"

definition RESTClient_getComponent :: "env \<Rightarrow> string \<Rightarrow> ComponentRegistrationResult call" where
  "RESTClient_getComponent e componentId' =
     RESTClient_exchange e ''GET'' (''/components/'' @ urlEncode componentId')
       []
       read_ComponentRegistrationResult"

definition RESTClient_getComponentIdentity :: "env \<Rightarrow> string \<Rightarrow> ComponentRegistrationResult call" where
  "RESTClient_getComponentIdentity e componentId' =
     RESTClient_exchange e ''GET'' (''/components/'' @ urlEncode componentId' @ ''/identity'')
       []
       read_ComponentRegistrationResult"

definition RESTClient_verifyComponent :: "env \<Rightarrow> string \<Rightarrow> string \<Rightarrow> string \<Rightarrow> ComponentRegistrationResult call" where
  "RESTClient_verifyComponent e verifier' componentId' context' =
     RESTClient_exchange e ''POST'' ''/components/verify''
       (json_dump e (verifyComponent_request verifier' componentId' context'))
       read_ComponentRegistrationResult"

definition RESTClient_registerAnonymousComponent :: "env \<Rightarrow> string \<Rightarrow> string \<Rightarrow> string \<Rightarrow> string \<Rightarrow> string \<Rightarrow> AnonymousComponentResult call" where
  "RESTClient_registerAnonymousComponent e creator' realComponentId' manufacturerId' componentType' context' =
     RESTClient_exchange e ''POST'' ''/components/register-anonymous''
       (json_dump e (registerAnonymousComponent_request creator' realComponentId' manufacturerId' componentType' context'))
       read_AnonymousComponentResult"

definition RESTClient_verifyComponentPairingWithHashes :: "env \<Rightarrow> string \<Rightarrow> string \<Rightarrow> string \<Rightarrow> string \<Rightarrow> PairingVerificationResult call" where
  "RESTClient_verifyComponentPairingWithHashes e verifier' sourceHash' targetHash' context' =
     RESTClient_exchange e ''POST'' ''/components/verify-pairing-hashes''
       (json_dump e (verifyComponentPairingWithHashes_request verifier' sourceHash' targetHash' context'))
       read_PairingVerificationResult"

definition RESTClient_createAnonymousPairingAuthorization :: "env \<Rightarrow> string \<Rightarrow> string \<Rightarrow> string \<Rightarrow> string \<Rightarrow> PairingAuthorizationResult call" where
  "RESTClient_createAnonymousPairingAuthorization e creator' sourceHash' targetHash' context' =
     RESTClient_exchange e ''POST'' ''/components/create-pairing-authorization''
       (json_dump e (createAnonymousPairingAuthorization_request creator' sourceHash' targetHash' context'))
       read_PairingAuthorizationResult"

definition RESTClient_createAnonymousRevocationEvent :: "env \<Rightarrow> string \<Rightarrow> string \<Rightarrow> string \<Rightarrow> string \<Rightarrow> RevocationEventResult call" where
  "RESTClient_createAnonymousRevocationEvent e creator' componentHash' reason' context' =
     RESTClient_exchange e ''POST'' ''/components/create-revocation-event''
       (json_dump e (createAnonymousRevocationEvent_request creator' componentHash' reason' context'))
       read_RevocationEventResult"

definition RESTClient_getAnonymousComponentMetadata :: "env \<Rightarrow> string \<Rightarrow> ComponentMetadataResult call" where
  "RESTClient_getAnonymousComponentMetadata e componentHash' =
     RESTClient_exchange e ''GET'' (''/components/anonymous/'' @ urlEncode componentHash' @ ''/metadata'')
       []
       read_ComponentMetadataResult"

definition RESTClient_createLCT :: "env \<Rightarrow> string \<Rightarrow> string \<Rightarrow> string \<Rightarrow> string \<Rightarrow> string \<Rightarrow> LCTResult call" where
  "RESTClient_createLCT e creator' componentA' componentB' context' proxyId' =
     RESTClient_exchange e ''POST'' ''/lct/create''
       (json_dump e (createLCT_request creator' componentA' componentB' context' proxyId'))
       read_LCTResult"

definition RESTClient_getLCT :: "env \<Rightarrow> string \<Rightarrow> LCTResult call" where
  "RESTClient_getLCT e lctId' =
     RESTClient_exchange e ''GET'' (''/lct/'' @ urlEncode lctId') []
       read_LCTResult"

definition RESTClient_updateLCTStatus :: "env \<Rightarrow> string \<Rightarrow> string \<Rightarrow> string \<Rightarrow> string \<Rightarrow> LCTResult call" where
  "RESTClient_updateLCTStatus e creator' lctId' status' context' =
     RESTClient_exchange e ''PUT'' (''/lct/'' @ urlEncode lctId' @ ''/status'')
       (json_dump e (updateLCTStatus_request creator' lctId' status' context'))
       read_LCTResult"

definition RESTClient_initiatePairing :: "env \<Rightarrow> string \<Rightarrow> string \<Rightarrow> string \<Rightarrow> string \<Rightarrow> string \<Rightarrow> bool \<Rightarrow> PairingInitiateResult call" where
  "RESTClient_initiatePairing e creator' componentA' componentB' operationalContext' proxyId' forceImmediate' =
     RESTClient_exchange e ''POST'' ''/pairing/initiate''
       (json_dump e (initiatePairing_request creator' componentA' componentB' operationalContext' proxyId' forceImmediate'))
       read_PairingInitiateResult"

definition RESTClient_completePairing :: "env \<Rightarrow> string \<Rightarrow> string \<Rightarrow> string \<Rightarrow> string \<Rightarrow> string \<Rightarrow> PairingCompleteResult call" where
  "RESTClient_completePairing e creator' challengeId' componentAAuth' componentBAuth' sessionContext' =
     RESTClient_exchange e ''POST'' ''/pairing/complete''
       (json_dump e (completePairing_request creator' challengeId' componentAAuth' componentBAuth' sessionContext'))
       read_PairingCompleteResult"

definition RESTClient_revokePairing :: "env \<Rightarrow> string \<Rightarrow> string \<Rightarrow> string \<Rightarrow> bool \<Rightarrow> string call" where
  "RESTClient_revokePairing e creator' lctId' reason' notifyOffline' =
     RESTClient_exchange e ''POST'' ''/pairing/revoke''
       (json_dump e (revokePairing_request creator' lctId' reason' notifyOffline'))
       (\<lambda>j. value_string j ''status'' '''')"

definition RESTClient_getPairingStatus :: "env \<Rightarrow> string \<Rightarrow> string call" where
  "RESTClient_getPairingStatus e challengeId' =
     RESTClient_exchange e ''GET'' (''/pairing/status/'' @ urlEncode challengeId')
       []
       (\<lambda>j. value_string j ''status'' '''')"

definition RESTClient_queuePairingRequest :: "env \<Rightarrow> string \<Rightarrow> string \<Rightarrow> string \<Rightarrow> string \<Rightarrow> PairingRequestResult call" where
  "RESTClient_queuePairingRequest e creator' componentA' componentB' context' =
     RESTClient_exchange e ''POST'' ''/pairing/queue''
       (json_dump e (queuePairingRequest_request creator' componentA' componentB' context'))
       read_PairingRequestResult"

definition RESTClient_getQueueStatus :: "env \<Rightarrow> string \<Rightarrow> QueueStatusResult call" where
  "RESTClient_getQueueStatus e queueId' =
     RESTClient_exchange e ''GET'' (''/pairing/queue/'' @ urlEncode queueId' @ ''/status'')
       []
       read_QueueStatusResult"

definition RESTClient_processOfflineQueue :: "env \<Rightarrow> string \<Rightarrow> string \<Rightarrow> string \<Rightarrow> string call" where
  "RESTClient_processOfflineQueue e processor' queueId' context' =
     RESTClient_exchange e ''POST'' ''/pairing/queue/process''
       (json_dump e (processOfflineQueue_request processor' queueId' context'))
       (\<lambda>j. value_string j ''result'' '''')"

definition RESTClient_cancelRequest :: "env \<Rightarrow> string \<Rightarrow> string \<Rightarrow> string \<Rightarrow> string call" where
  "RESTClient_cancelRequest e creator' requestId' reason' =
     RESTClient_exchange e ''POST'' ''/pairing/queue/cancel''
       (json_dump e (cancelRequest_request creator' requestId' reason'))
       (\<lambda>j. value_string j ''result'' '''')"

definition RESTClient_getQueuedRequests :: "env \<Rightarrow> string \<Rightarrow> (PairingRequestResult list) call" where
  "RESTClient_getQueuedRequests e queueId' =
     RESTClient_exchange e ''GET'' (''/pairing/queue/'' @ urlEncode queueId' @ ''/requests'')
       []
       (read_list ''requests'' read_PairingRequestResult)"

definition RESTClient_listProxyQueue :: "env \<Rightarrow> string \<Rightarrow> (PairingRequestResult list) call" where
  "RESTClient_listProxyQueue e proxyId' =
     RESTClient_exchange e ''GET'' (''/pairing/queue/proxy/'' @ urlEncode proxyId')
       []
       (read_list ''requests'' read_PairingRequestResult)"

definition RESTClient_createTrustTensor :: "env \<Rightarrow> string \<Rightarrow> string \<Rightarrow> string \<Rightarrow> string \<Rightarrow> real \<Rightarrow> TrustTensorResult call" where
  "RESTClient_createTrustTensor e creator' componentA' componentB' context' initialScore' =
     RESTClient_exchange e ''POST'' ''/trust/create''
       (json_dump e (createTrustTensor_request creator' componentA' componentB' context' initialScore'))
       read_TrustTensorResult"

definition RESTClient_getTrustTensor :: "env \<Rightarrow> string \<Rightarrow> TrustTensorResult call" where
  "RESTClient_getTrustTensor e tensorId' =
     RESTClient_exchange e ''GET'' (''/trust/'' @ urlEncode tensorId') []
       read_TrustTensorResult"

definition RESTClient_updateTrustScore :: "env \<Rightarrow> string \<Rightarrow> string \<Rightarrow> real \<Rightarrow> string \<Rightarrow> TrustTensorResult call" where
  "RESTClient_updateTrustScore e creator' tensorId' score' context' =
     RESTClient_exchange e ''PUT'' (''/trust/'' @ urlEncode tensorId' @ ''/score'')
       (json_dump e (updateTrustScore_request creator' tensorId' score' context'))
       read_TrustTensorResult"

definition RESTClient_createEnergyOperation :: "env \<Rightarrow> string \<Rightarrow> string \<Rightarrow> string \<Rightarrow> string \<Rightarrow> real \<Rightarrow> string \<Rightarrow> EnergyOperationResult call" where
  "RESTClient_createEnergyOperation e creator' componentA' componentB' operationType' amount' context' =
     RESTClient_exchange e ''POST'' ''/energy/create''
       (json_dump e (createEnergyOperation_request creator' componentA' componentB' operationType' amount' context'))
       read_EnergyOperationResult"

definition RESTClient_executeEnergyTransfer :: "env \<Rightarrow> string \<Rightarrow> string \<Rightarrow> real \<Rightarrow> string \<Rightarrow> EnergyOperationResult call" where
  "RESTClient_executeEnergyTransfer e creator' operationId' amount' context' =
     RESTClient_exchange e ''POST'' ''/energy/transfer''
       (json_dump e (executeEnergyTransfer_request creator' operationId' amount' context'))
       read_EnergyOperationResult"

definition RESTClient_getEnergyBalance :: "env \<Rightarrow> string \<Rightarrow> real call" where
  "RESTClient_getEnergyBalance e componentId' =
     RESTClient_exchange e ''GET'' (''/energy/balance/'' @ urlEncode componentId')
       []
       (\<lambda>j. value_double j ''balance'' 0)"

definition RESTClient_getHealthStatus :: "env \<Rightarrow> string call" where
  "RESTClient_getHealthStatus e = RESTClient_makeRequest e ''GET'' ''/health'' []"

definition RESTClient_getBlockchainStatus :: "env \<Rightarrow> string call" where
  "RESTClient_getBlockchainStatus e = RESTClient_makeRequest e ''GET'' ''/blockchain/status'' []"

section \<open>GRPCClient\<close>























section \<open>The declared interfaces (RESTClient.h, GRPCClient.h)\<close>







section \<open>A call of any public method\<close>

text \<open>
  To speak of every operation of a client at once, a call of a public method with its
  arguments is a value, and the result of the call is tagged with its type.
  \<open>RESTClient_invoke\<close> and \<open>GRPCClient_invoke\<close> only dispatch to the methods above.
  (\<^verbatim>\<open>startWebSocket\<close>, \<^verbatim>\<open>stopWebSocket\<close> and \<^verbatim>\<open>isConnected\<close> send nothing and are left
  out; streaming is modelled below.)
\<close>

datatype result_value =
    Accounts "Account list"
  | AnAccount Account
  | Registration ComponentRegistrationResult
  | AnonymousComponent AnonymousComponentResult
  | Verification PairingVerificationResult
  | Authorization PairingAuthorizationResult
  | Revocation RevocationEventResult
  | Metadata ComponentMetadataResult
  | AnLCT LCTResult
  | Initiated PairingInitiateResult
  | Completed PairingCompleteResult
  | Text string
  | Request PairingRequestResult
  | Requests "PairingRequestResult list"
  | QueueStatus QueueStatusResult
  | Tensor TrustTensorResult
  | Energy EnergyOperationResult
  | Number real

fun tagged :: "('a \<Rightarrow> result_value) \<Rightarrow> 'a call \<Rightarrow> result_value call" where
  "tagged tag (Returned x, sent) = (Returned (tag x), sent)"
| "tagged tag (Thrown ex, sent) = (Thrown ex, sent)"

datatype rest_invocation =
    REST_getAccounts
  | REST_createAccount string
  | REST_registerComponent string string string
  | REST_getComponent string
  | REST_getComponentIdentity string
  | REST_verifyComponent string string string
  | REST_registerAnonymousComponent string string string string string
  | REST_verifyComponentPairingWithHashes string string string string
  | REST_createAnonymousPairingAuthorization string string string string
  | REST_createAnonymousRevocationEvent string string string string
  | REST_getAnonymousComponentMetadata string
  | REST_createLCT string string string string string
  | REST_getLCT string
  | REST_updateLCTStatus string string string string
  | REST_initiatePairing string string string string string bool
  | REST_completePairing string string string string string
  | REST_revokePairing string string string bool
  | REST_getPairingStatus string
  | REST_queuePairingRequest string string string string
  | REST_getQueueStatus string
  | REST_processOfflineQueue string string string
  | REST_cancelRequest string string string
  | REST_getQueuedRequests string
  | REST_listProxyQueue string
  | REST_createTrustTensor string string string string real
  | REST_getTrustTensor string
  | REST_updateTrustScore string string real string
  | REST_createEnergyOperation string string string string real string
  | REST_executeEnergyTransfer string string real string
  | REST_getEnergyBalance string
  | REST_getHealthStatus
  | REST_getBlockchainStatus

fun RESTClient_invoke :: "env \<Rightarrow> rest_invocation \<Rightarrow> result_value call" where
  "RESTClient_invoke e REST_getAccounts = tagged Accounts (RESTClient_getAccounts e)"
| "RESTClient_invoke e (REST_createAccount name') =
     tagged AnAccount (RESTClient_createAccount e name')"
| "RESTClient_invoke e (REST_registerComponent creator' componentData' context') =
     tagged Registration (RESTClient_registerComponent e creator' componentData' context')"
| "RESTClient_invoke e (REST_getComponent componentId') =
     tagged Registration (RESTClient_getComponent e componentId')"
| "RESTClient_invoke e (REST_getComponentIdentity componentId') =
     tagged Registration (RESTClient_getComponentIdentity e componentId')"
| "RESTClient_invoke e (REST_verifyComponent verifier' componentId' context') =
     tagged Registration (RESTClient_verifyComponent e verifier' componentId' context')"
| "RESTClient_invoke e (REST_registerAnonymousComponent creator' realComponentId' manufacturerId' componentType' context') =
     tagged AnonymousComponent (RESTClient_registerAnonymousComponent e creator' realComponentId' manufacturerId' componentType' context')"
| "RESTClient_invoke e (REST_verifyComponentPairingWithHashes verifier' sourceHash' targetHash' context') =
     tagged Verification (RESTClient_verifyComponentPairingWithHashes e verifier' sourceHash' targetHash' context')"
| "RESTClient_invoke e (REST_createAnonymousPairingAuthorization creator' sourceHash' targetHash' context') =
     tagged Authorization (RESTClient_createAnonymousPairingAuthorization e creator' sourceHash' targetHash' context')"
| "RESTClient_invoke e (REST_createAnonymousRevocationEvent creator' componentHash' reason' context') =
     tagged Revocation (RESTClient_createAnonymousRevocationEvent e creator' componentHash' reason' context')"
| "RESTClient_invoke e (REST_getAnonymousComponentMetadata componentHash') =
     tagged Metadata (RESTClient_getAnonymousComponentMetadata e componentHash')"
| "RESTClient_invoke e (REST_createLCT creator' componentA' componentB' context' proxyId') =
     tagged AnLCT (RESTClient_createLCT e creator' componentA' componentB' context' proxyId')"
| "RESTClient_invoke e (REST_getLCT lctId') = tagged AnLCT (RESTClient_getLCT e lctId')"
| "RESTClient_invoke e (REST_updateLCTStatus creator' lctId' status' context') =
     tagged AnLCT (RESTClient_updateLCTStatus e creator' lctId' status' context')"
| "RESTClient_invoke e (REST_initiatePairing creator' componentA' componentB' operationalContext' proxyId' forceImmediate') =
     tagged Initiated (RESTClient_initiatePairing e creator' componentA' componentB' operationalContext' proxyId' forceImmediate')"
| "RESTClient_invoke e (REST_completePairing creator' challengeId' componentAAuth' componentBAuth' sessionContext') =
     tagged Completed (RESTClient_completePairing e creator' challengeId' componentAAuth' componentBAuth' sessionContext')"
| "RESTClient_invoke e (REST_revokePairing creator' lctId' reason' notifyOffline') =
     tagged Text (RESTClient_revokePairing e creator' lctId' reason' notifyOffline')"
| "RESTClient_invoke e (REST_getPairingStatus challengeId') =
     tagged Text (RESTClient_getPairingStatus e challengeId')"
| "RESTClient_invoke e (REST_queuePairingRequest creator' componentA' componentB' context') =
     tagged Request (RESTClient_queuePairingRequest e creator' componentA' componentB' context')"
| "RESTClient_invoke e (REST_getQueueStatus queueId') =
     tagged QueueStatus (RESTClient_getQueueStatus e queueId')"
| "RESTClient_invoke e (REST_processOfflineQueue processor' queueId' context') =
     tagged Text (RESTClient_processOfflineQueue e processor' queueId' context')"
| "RESTClient_invoke e (REST_cancelRequest creator' requestId' reason') =
     tagged Text (RESTClient_cancelRequest e creator' requestId' reason')"
| "RESTClient_invoke e (REST_getQueuedRequests queueId') =
     tagged Requests (RESTClient_getQueuedRequests e queueId')"
| "RESTClient_invoke e (REST_listProxyQueue proxyId') =
     tagged Requests (RESTClient_listProxyQueue e proxyId')"
| "RESTClient_invoke e (REST_createTrustTensor creator' componentA' componentB' context' initialScore') =
     tagged Tensor (RESTClient_createTrustTensor e creator' componentA' componentB' context' initialScore')"
| "RESTClient_invoke e (REST_getTrustTensor tensorId') =
     tagged Tensor (RESTClient_getTrustTensor e tensorId')"
| "RESTClient_invoke e (REST_updateTrustScore creator' tensorId' score' context') =
     tagged Tensor (RESTClient_updateTrustScore e creator' tensorId' score' context')"
| "RESTClient_invoke e (REST_createEnergyOperation creator' componentA' componentB' operationType' amount' context') =
     tagged Energy (RESTClient_createEnergyOperation e creator' componentA' componentB' operationType' amount' context')"
| "RESTClient_invoke e (REST_executeEnergyTransfer creator' operationId' amount' context') =
     tagged Energy (RESTClient_executeEnergyTransfer e creator' operationId' amount' context')"
| "RESTClient_invoke e (REST_getEnergyBalance componentId') =
     tagged Number (RESTClient_getEnergyBalance e componentId')"
| "RESTClient_invoke e REST_getHealthStatus = tagged Text (RESTClient_getHealthStatus e)"
| "RESTClient_invoke e REST_getBlockchainStatus = tagged Text (RESTClient_getBlockchainStatus e)"



section \<open>Example backends\<close>






section \<open>The wire-level contract of the specification\<close>



section \<open>Response documents that a reader accepts\<close>





section \<open>Streaming (GRPCClient::streamBatteryStatus, stopStreaming, streamingWorker)\<close>

text \<open>
  The streaming members of \<^verbatim>\<open>GRPCClient\<close> are the flag
  \<^verbatim>\<open>std::atomic<bool> streamingActive\<close> and the handle
  \<^verbatim>\<open>std::unique_ptr<std::thread> streamingThread\<close>.  The methods run on the thread of the
  caller, \<^verbatim>\<open>streamingWorker\<close> runs on the thread that \<^verbatim>\<open>streamBatteryStatus\<close> starts,
  and the two interleave statement by statement.  The model is a transition system over
  these statements.  It assumes what the class assumes: the methods are called from one
  thread, one call at a time, and not from inside the callback; the callback returns;
  a thread can be started.  The values handed to the callback (random readings) play no
  part and are left out; a call of the callback is counted.
\<close>

text \<open>Where a worker stands in \<^verbatim>\<open>streamingWorker\<close>: before the test of
  \<^verbatim>\<open>while (streamingActive)\<close>, before \<^verbatim>\<open>callback(update)\<close>, in \<^verbatim>\<open>sleep_for\<close>, or after
  the loop.\<close>

datatype worker_pc = At_loop_test | At_callback | At_sleep | Finished

text \<open>A \<^verbatim>\<open>std::thread\<close> object with the function it runs: it is joinable from its start
  until \<^verbatim>\<open>join()\<close> has returned.\<close>

record cpp_thread =
  pc :: worker_pc
  joinable :: bool

text \<open>\<^verbatim>\<open>stopStreaming\<close> is called by the user, by \<^verbatim>\<open>streamBatteryStatus\<close> and by the
  destructor; this is where it returns to.\<close>

datatype continuation = To_caller | To_streamBatteryStatus | To_destructor

text \<open>Where the calling thread stands: between two calls, at one of the statements of
  \<^verbatim>\<open>streamBatteryStatus\<close> (the test of the flag, the assignment of \<^verbatim>\<open>true\<close>, the start
  of the thread) or of \<^verbatim>\<open>stopStreaming\<close> (the assignment of \<^verbatim>\<open>false\<close>, the test of the
  handle, \<^verbatim>\<open>join()\<close>), at the destruction of the members, after it, or after
  \<^verbatim>\<open>std::terminate\<close>.\<close>

datatype caller_pc =
    Idle
  | Stream_test
  | Stream_set
  | Stream_spawn
  | Stop_clear continuation
  | Stop_test continuation
  | Stop_join continuation
  | Destroy_members
  | Destroyed
  | Terminated

record streaming =
  streamingActive :: bool
  streamingThread :: "nat option"
  threads :: "cpp_thread list"
  caller :: caller_pc
  delivered :: nat


text \<open>The thread object that \<^verbatim>\<open>streamingThread\<close> owns, if any.\<close>

definition owned :: "streaming \<Rightarrow> cpp_thread option" where
  "owned s =
     (case streamingThread s of
        None \<Rightarrow> None
      | Some t \<Rightarrow> if t < length (threads s) then Some (threads s ! t) else None)"








text \<open>A worker is live until it has left its loop.\<close>

definition live :: "cpp_thread \<Rightarrow> bool" where
  "live th = (pc th \<noteq> Finished)"

text \<open>
  The facts that every reachable state satisfies, by the place of the calling thread.
  \<open>quiet\<close>: every thread has finished and has been joined.  \<open>running\<close>: the
  thread that \<^verbatim>\<open>streamingThread\<close> owns has not been joined yet, and every other thread
  has finished and has been joined.
\<close>

definition spent :: "cpp_thread \<Rightarrow> bool" where
  "spent th = (pc th = Finished \<and> \<not> joinable th)"

definition quiet :: "streaming \<Rightarrow> bool" where
  "quiet s = list_all spent (threads s)"

definition running :: "streaming \<Rightarrow> bool" where
  "running s =
     (case streamingThread s of
        None \<Rightarrow> False
      | Some t \<Rightarrow>
          t < length (threads s) \<and> joinable (threads s ! t)
          \<and> list_all spent (take t (threads s)) \<and> list_all spent (drop (Suc t) (threads s)))"

definition streaming_owner_live :: "streaming \<Rightarrow> bool" where
  "streaming_owner_live s = (case owned s of None \<Rightarrow> False | Some th \<Rightarrow> live th)"




definition pending :: "streaming \<Rightarrow> nat" where
  "pending s = (case owned s of Some th \<Rightarrow> if pc th = At_callback then 1 else 0 | None \<Rightarrow> 0)"



section \<open>Properties of urlEncode\<close>

lemma of_char_less_256: "(of_char c :: nat) < 256"
  by (cases c) simp

lemma setw_hex_digits_byte:
  "n < 256 \<Longrightarrow>
     setw_fill 2 (CHR ''0'') (hex_digits n) = [hex_digit (n div 16), hex_digit (n mod 16)]"
  apply (subst hex_digits.simps)
  apply (auto simp: setw_fill_def hex_digits.simps [of "n div 16"] hex_digit_def)
  done

lemma unhex_hex_digit: "d < 16 \<Longrightarrow> unhex (hex_digit d) = d"
proof -
  assume "d < 16"
  then have "d \<in> set [0..<16]" by simp
  then show ?thesis
    by (simp add: unhex_def hex_digit_def upt_rec) (elim disjE; simp)
qed

lemma unreserved_not_percent: "unreserved c \<Longrightarrow> c \<noteq> CHR ''%''"
  by (auto simp: unreserved_def isalnum_def)

lemma urlEncode_Cons:
  "urlEncode (c # s) =
     (if unreserved c then [c]
      else [CHR ''%'', hex_digit (of_char c div 16), hex_digit (of_char c mod 16)]) @ urlEncode s"
  using setw_hex_digits_byte [OF of_char_less_256, of c] by (simp add: unreserved_def)

lemma hex_pair_inj:
  assumes "hex_digit (of_char c div 16) = hex_digit (of_char d div 16)"
    and "hex_digit (of_char c mod 16) = hex_digit (of_char d mod 16)"
  shows "c = d"
proof -
  have c: "(of_char c :: nat) div 16 < 16" and d: "(of_char d :: nat) div 16 < 16"
    using of_char_less_256 [of c] of_char_less_256 [of d]
    by (simp_all add: less_mult_imp_div_less)
  have "unhex (hex_digit (of_char c div 16)) = unhex (hex_digit (of_char d div 16))"
    using assms(1) by simp
  then have hi: "(of_char c :: nat) div 16 = of_char d div 16"
    using c d by (simp add: unhex_hex_digit)
  have "unhex (hex_digit (of_char c mod 16)) = unhex (hex_digit (of_char d mod 16))"
    using assms(2) by simp
  then have lo: "(of_char c :: nat) mod 16 = of_char d mod 16"
    by (simp add: unhex_hex_digit)
  have "(of_char c :: nat) = of_char d"
    using hi lo by (metis div_mult_mod_eq)
  then show ?thesis by simp
qed

lemma urlEncode_Cons_inj:
  assumes "urlEncode (c # s) = urlEncode (d # t)"
  shows "c = d \<and> urlEncode s = urlEncode t"
proof (cases "unreserved c")
  case c: True
  show ?thesis
  proof (cases "unreserved d")
    case True
    with c assms show ?thesis by (simp del: urlEncode.simps(2) add: urlEncode_Cons)
  next
    case False
    with c assms have "c = CHR ''%''" by (simp del: urlEncode.simps(2) add: urlEncode_Cons)
    with unreserved_not_percent [OF c] show ?thesis by simp
  qed
next
  case c: False
  show ?thesis
  proof (cases "unreserved d")
    case True
    with c assms have "d = CHR ''%''" by (simp del: urlEncode.simps(2) add: urlEncode_Cons)
    with unreserved_not_percent [OF True] show ?thesis by simp
  next
    case False
    with c assms have "hex_digit (of_char c div 16) = hex_digit (of_char d div 16)"
      and "hex_digit (of_char c mod 16) = hex_digit (of_char d mod 16)"
      and "urlEncode s = urlEncode t"
      by (simp_all del: urlEncode.simps(2) add: urlEncode_Cons)
    then show ?thesis using hex_pair_inj by blast
  qed
qed

lemma urlEncode_Nil_iff: "urlEncode s = [] \<longleftrightarrow> s = []"
  by (cases s) (simp_all del: urlEncode.simps(2) add: urlEncode_Cons)

lemma urlEncode_inj: "urlEncode s = urlEncode t \<Longrightarrow> s = t"
proof (induction s arbitrary: t)
  case Nil
  then show ?case using urlEncode_Nil_iff [of t] by simp
next
  case (Cons c s)
  show ?case
  proof (cases t)
    case Nil
    with Cons.prems urlEncode_Nil_iff [of "c # s"] show ?thesis by simp
  next
    case (Cons d t')
    with Cons.prems have "urlEncode (c # s) = urlEncode (d # t')" by simp
    then have "c = d \<and> urlEncode s = urlEncode t'" by (rule urlEncode_Cons_inj)
    with Cons.IH Cons show ?thesis by blast
  qed
qed

lemma urlEncode_append: "urlEncode (s @ t) = urlEncode s @ urlEncode t"
  by (induction s) simp_all

text \<open>
  Claim C10.  \<^verbatim>\<open>urlEncode\<close> is a function of its argument alone.  A byte that is
  alphanumeric or one of \<^verbatim>\<open>- _ . ~\<close> is copied; every other byte becomes \<^verbatim>\<open>%\<close> followed
  by the two lower-case hexadecimal digits of its value.  The encoding of a string is the
  concatenation of the encodings of its bytes, and two strings have the same encoding
  only if they are the same string.
\<close>

theorem urlEncode_injective_encoding:
  "urlEncode [c] =
     (if isalnum c \<or> c = CHR ''-'' \<or> c = CHR ''_'' \<or> c = CHR ''.'' \<or> c = CHR ''~'' then [c]
      else [CHR ''%'', hex_digit (of_char c div 16), hex_digit (of_char c mod 16)])
   \<and> urlEncode (s @ t) = urlEncode s @ urlEncode t
   \<and> (urlEncode s = urlEncode t) = (s = t)"
proof -
  have "urlEncode [c] =
     (if isalnum c \<or> c = CHR ''-'' \<or> c = CHR ''_'' \<or> c = CHR ''.'' \<or> c = CHR ''~'' then [c]
      else [CHR ''%'', hex_digit (of_char c div 16), hex_digit (of_char c mod 16)])"
    unfolding urlEncode_Cons [of c "[]"] by (simp add: unreserved_def)
  moreover have "(urlEncode s = urlEncode t) = (s = t)"
    using urlEncode_inj [of s t] by blast
  ultimately show ?thesis
    using urlEncode_append [of s t] by blast
qed

text \<open>The encoding of a queue identifier with a space and a slash.\<close>

lemma urlEncode_example: "urlEncode ''queue 1/a~b'' = ''queue%201%2fa~b''"
  by (simp add: isalnum_def setw_fill_def hex_digits.simps hex_digit_def)

section \<open>Basic facts about the two clients\<close>

lemmas RESTClient_operation_defs = RESTClient_getAccounts_def RESTClient_createAccount_def RESTClient_registerComponent_def RESTClient_getComponent_def RESTClient_getComponentIdentity_def RESTClient_verifyComponent_def RESTClient_registerAnonymousComponent_def RESTClient_verifyComponentPairingWithHashes_def RESTClient_createAnonymousPairingAuthorization_def RESTClient_createAnonymousRevocationEvent_def RESTClient_getAnonymousComponentMetadata_def RESTClient_createLCT_def RESTClient_getLCT_def RESTClient_updateLCTStatus_def RESTClient_initiatePairing_def RESTClient_completePairing_def RESTClient_revokePairing_def RESTClient_getPairingStatus_def RESTClient_queuePairingRequest_def RESTClient_getQueueStatus_def RESTClient_processOfflineQueue_def RESTClient_cancelRequest_def RESTClient_getQueuedRequests_def RESTClient_listProxyQueue_def RESTClient_createTrustTensor_def RESTClient_getTrustTensor_def RESTClient_updateTrustScore_def RESTClient_createEnergyOperation_def RESTClient_executeEnergyTransfer_def RESTClient_getEnergyBalance_def RESTClient_getHealthStatus_def RESTClient_getBlockchainStatus_def

lemma fst_tagged:
  "fst (tagged tag p) = (case fst p of Returned x \<Rightarrow> Returned (tag x) | Thrown ex \<Rightarrow> Thrown ex)"
  by (cases "(tag, p)" rule: tagged.cases) simp_all

lemma snd_tagged: "snd (tagged tag p) = snd p"
  by (cases "(tag, p)" rule: tagged.cases) simp_all

lemma RESTClient_makeRequest_answer:
  "method = ''GET'' \<or> method = ''POST'' \<or> method = ''PUT'' \<or> method = ''DELETE'' \<Longrightarrow>
     fst (RESTClient_makeRequest (e\<lparr>http := \<lambda>_. r\<rparr>) method endpoint body) = RESTClient_checked r"
  by (auto simp: RESTClient_makeRequest_def)

lemma fst_RESTClient_exchange:
  "fst (RESTClient_exchange e method endpoint body fill) =
     and_then (fst (RESTClient_makeRequest e method endpoint body))
       (\<lambda>text. and_then (parse e text) fill)"
  by (simp add: RESTClient_exchange_def split: prod.splits)





lemma parse_http_update [simp]: "parse (e\<lparr>http := h\<rparr>) = parse e"
  by (rule ext) (simp add: parse_def)

lemma RESTClient_invoke_thrown:
  "RESTClient_checked r = Thrown x \<Longrightarrow> fst (RESTClient_invoke (e\<lparr>http := \<lambda>_. r\<rparr>) c) = Thrown x"
  by (cases c)
     (simp_all add: fst_tagged RESTClient_operation_defs fst_RESTClient_exchange
        RESTClient_makeRequest_answer)

lemma RESTClient_invoke_returned:
  "fst (RESTClient_invoke (e\<lparr>http := \<lambda>_. r\<rparr>) c) = Returned v \<Longrightarrow>
     \<exists>text. RESTClient_checked r = Returned text"
  using RESTClient_invoke_thrown [of r _ e c] by (cases "RESTClient_checked r") auto






section \<open>Failure of an operation\<close>




section \<open>Acceptance of a response (status 200 only)\<close>




section \<open>completePairing: one request, no retry\<close>



section \<open>createTrustTensor: the score is not checked\<close>



section \<open>Requests and results of the mutating operations\<close>






















section \<open>initiatePairing: one result type, the backend's status\<close>










section \<open>The two transports compared\<close>















section \<open>The invariant of streaming\<close>

lemma list_all_spent_update:
  "list_all spent xs \<Longrightarrow> spent x \<Longrightarrow> list_all spent (xs[i := x])"
  by (auto simp: list_all_iff dest: set_update_subset_insert [THEN subsetD])




lemma frame_caller [simp]:
  "running (s\<lparr>caller := c\<rparr>) = running s"
  "quiet (s\<lparr>caller := c\<rparr>) = quiet s"
  "owned (s\<lparr>caller := c\<rparr>) = owned s"
  "streaming_owner_live (s\<lparr>caller := c\<rparr>) = streaming_owner_live s"
  by (simp_all add: running_def quiet_def owned_def streaming_owner_live_def split: option.splits)

lemma frame_flag [simp]:
  "running (s\<lparr>streamingActive := b\<rparr>) = running s"
  "quiet (s\<lparr>streamingActive := b\<rparr>) = quiet s"
  "owned (s\<lparr>streamingActive := b\<rparr>) = owned s"
  "streaming_owner_live (s\<lparr>streamingActive := b\<rparr>) = streaming_owner_live s"
  by (simp_all add: running_def quiet_def owned_def streaming_owner_live_def split: option.splits)




lemma quiet_owned_not_joinable: "quiet s \<Longrightarrow> owned s = Some th \<Longrightarrow> \<not> joinable th"
  by (auto simp: quiet_def owned_def list_all_length spent_def split: option.splits if_splits)

lemma running_owned_joinable: "running s \<Longrightarrow> \<exists>th. owned s = Some th \<and> joinable th"
  by (auto simp: running_def owned_def split: option.splits)

lemma running_not_quiet: "running s \<Longrightarrow> \<not> quiet s"
  using quiet_owned_not_joinable running_owned_joinable by blast










section \<open>At most one streaming worker\<close>










section \<open>Stopping a stream\<close>








lemma pending_frame [simp]:
  "pending (s\<lparr>caller := c\<rparr>) = pending s"
  by (simp add: pending_def)













end
